theory Spec2Isabelle
  imports Complex_Main "HOL-Library.Multiset" "HOL-Library.Sublist"
begin

section \<open>Data model of the route engine\<close>

text \<open>
  The engine is \<^verbatim>\<open>src/components/hooks/useRouteCalculation.ts\<close> together with the two
  network helpers of \<^verbatim>\<open>src/components/routeUtils.ts\<close>. JavaScript numbers are modelled as
  real numbers: arithmetic is exact and there is no NaN and no infinity (the one infinity of
  the source, the initial \<^verbatim>\<open>bestIncrease\<close>, is the value \<open>None\<close>). A coordinate pair is
  \<^verbatim>\<open>[lon, lat]\<close> wherever the source calls it \<^verbatim>\<open>coords\<close> and \<^verbatim>\<open>[lat, lon]\<close> in path
  geometry.
\<close>

type_synonym point = "real \<times> real"

datatype TransportMode = Walking | Cycling | Driving

text \<open>\<^verbatim>\<open>interface Waypoint\<close> of routeUtils.ts; absent optional booleans are falsy. Record
  fields carry a prefix (\<open>wp_\<close>, \<open>cl_\<close>, \<open>ld_\<close>, \<open>rd_\<close>) so that the source's variable names
  stay free for the functions below.\<close>

record Waypoint =
  wp_id :: string
  wp_address :: string
  wp_name :: "string option"
  wp_coordinates :: "point option"
  wp_visited :: bool
  wp_isEndPoint :: bool

text \<open>The fields of \<^verbatim>\<open>currentLocation\<close> that the engine reads.\<close>

record CurrentLocation =
  cl_latitude :: real
  cl_longitude :: real
  cl_address :: "string option"

text \<open>\<^verbatim>\<open>interface LocationData\<close>, as the engine fills it for every output waypoint.\<close>

record LocationData =
  ld_latitude :: real
  ld_longitude :: real
  ld_address :: "string option"
  ld_name :: "string option"
  ld_id :: "string option"
  ld_displayNumber :: nat

text \<open>\<^verbatim>\<open>interface RouteData\<close>, the argument of \<^verbatim>\<open>setRouteData\<close>.\<close>

record RouteData =
  rd_distance :: real
  rd_duration :: real
  rd_coordinates :: "point list"
  rd_waypoints :: "LocationData list"

text \<open>
  Every \<^verbatim>\<open>throw\<close> of the source, the two early returns of the entry point, and the
  \<^verbatim>\<open>TypeError\<close> that JavaScript raises on a property read of \<^verbatim>\<open>null\<close> or \<^verbatim>\<open>undefined\<close>.
\<close>

datatype error =
    MissingInformation
  | NoDestinations
  | DestinationNotFound string
  | EndDestinationNotFound string
  | NoValidDestinations
  | TransportFailure
  | NoOptimalTrip
  | MalformedGeometry
  | OrderIndexOutOfRange int
  | NoRoadRoute
  | TypeError

text \<open>The title of the summary toast tells which strategy produced the route.\<close>

datatype strategy = ProviderTrip | GreedyInsertion | NearestNeighbor

subsection \<open>External collaborators\<close>

text \<open>
  \<^verbatim>\<open>data.trips[0]\<close> of the trip service, with the fields the client destructures.
\<close>

record trip =
  trip_geometry :: "point list option"
  trip_distance :: real
  trip_duration :: real
  trip_waypoint_order :: "int list option"

datatype trip_reply = TripFetchFailed | TripData "trip option"

text \<open>\<^verbatim>\<open>data.routes[0]\<close> of the route service: geometry (lon, lat), distance, duration.\<close>

datatype route_reply = RouteFetchFailed | RouteReply "(point list \<times> real \<times> real) option"

record env =
  geocoder :: "string \<Rightarrow> point option"
  tripService :: "TransportMode \<Rightarrow> point list \<Rightarrow> bool \<Rightarrow> trip_reply"
  routeService :: "TransportMode \<Rightarrow> point list \<Rightarrow> route_reply"

text \<open>The network requests of one invocation, in the order they are issued.\<close>

datatype call =
    GeocodeCall string
  | TripCall TransportMode "point list" bool
  | RouteCall TransportMode "point list"

subsection \<open>Small helpers of the JavaScript runtime\<close>

definition bindE :: "'e + 'a \<Rightarrow> ('a \<Rightarrow> 'e + 'b) \<Rightarrow> 'e + 'b" where
  "bindE m f = (case m of Inl e \<Rightarrow> Inl e | Inr x \<Rightarrow> f x)"

text \<open>\<^verbatim>\<open>Array.prototype.findIndex\<close>; \<open>None\<close> is the result \<^verbatim>\<open>-1\<close>.\<close>

fun findIndex :: "('a \<Rightarrow> bool) \<Rightarrow> 'a list \<Rightarrow> nat option" where
  "findIndex P [] = None"
| "findIndex P (x # xs) =
     (if P x then Some 0 else (case findIndex P xs of None \<Rightarrow> None | Some k \<Rightarrow> Some (Suc k)))"

text \<open>\<^verbatim>\<open>xs.splice(k, 1)\<close> and \<^verbatim>\<open>xs.splice(k, 0, x)\<close>.\<close>

definition removeAt :: "nat \<Rightarrow> 'a list \<Rightarrow> 'a list" where
  "removeAt k xs = take k xs @ drop (Suc k) xs"

definition insertAt :: "nat \<Rightarrow> 'a \<Rightarrow> 'a list \<Rightarrow> 'a list" where
  "insertAt k x xs = take k xs @ x # drop k xs"

text \<open>Whitespace that \<^verbatim>\<open>String.prototype.trim\<close> removes (the one-byte characters).\<close>

definition isSpace :: "char \<Rightarrow> bool" where
  "isSpace c = (c \<in> set [CHR 0x09, CHR 0x0A, CHR 0x0B, CHR 0x0C, CHR 0x0D, CHR 0x20])"

text \<open>\<^verbatim>\<open>s.trim() === ""\<close>.\<close>

definition isBlank :: "string \<Rightarrow> bool" where
  "isBlank s = list_all isSpace s"

section \<open>Distance estimator\<close>

definition toRad :: "real \<Rightarrow> real" where
  "toRad x = x * pi / 180"

text \<open>\<^verbatim>\<open>Math.atan2(y, x)\<close> on the reals.\<close>

definition atan2 :: "real \<Rightarrow> real \<Rightarrow> real" where
  "atan2 y x =
     (if 0 < x then arctan (y / x)
      else if x < 0 then (if 0 \<le> y then arctan (y / x) + pi else arctan (y / x) - pi)
      else if 0 < y then pi / 2
      else if y < 0 then - (pi / 2)
      else 0)"

definition haversine :: "point \<Rightarrow> point \<Rightarrow> real" where
  "haversine p q =
     (case p of (lon1, lat1) \<Rightarrow> case q of (lon2, lat2) \<Rightarrow>
        let dLat = toRad (lat2 - lat1);
            dLon = toRad (lon2 - lon1);
            a = (sin (dLat / 2))\<^sup>2 + cos (toRad lat1) * cos (toRad lat2) * (sin (dLon / 2))\<^sup>2
        in 6371000 * 2 * atan2 (sqrt a) (sqrt (1 - a)))"


section \<open>Heuristic orderers\<close>

text \<open>
  A leg is the object \<^verbatim>\<open>{coords, waypoint}\<close>. Inside the insertion heuristic the
  \<^verbatim>\<open>waypoint\<close> field of a route element is \<^verbatim>\<open>null\<close> (the seeds for the start), the
  payload of an inserted leg, or, for the seeded end, the end leg object itself
  (\<^verbatim>\<open>waypoint: endpoint\<close>).
\<close>

datatype 'a slot = Null | Obj 'a | LegObj "point \<times> 'a"

definition asNode :: "point \<times> 'a \<Rightarrow> point \<times> 'a slot" where
  "asNode leg = (fst leg, Obj (snd leg))"


definition sameCoords :: "point \<Rightarrow> point \<times> 'a \<Rightarrow> bool" where
  "sameCoords endCoords wp = (fst (fst wp) = fst endCoords \<and> snd (fst wp) = snd endCoords)"

subsection \<open>Greedy cheapest insertion\<close>

text \<open>The loop variables \<^verbatim>\<open>(bestIncrease, bestIdx, bestPos)\<close>; \<open>None\<close> is
  \<^verbatim>\<open>Infinity\<close>, respectively \<^verbatim>\<open>-1\<close>.\<close>

type_synonym best = "real option \<times> nat option \<times> nat"

definition lessThanBest :: "real \<Rightarrow> real option \<Rightarrow> bool" where
  "lessThanBest x b = (case b of None \<Rightarrow> True | Some y \<Rightarrow> x < y)"

definition increaseAt :: "(point \<times> 'a slot) list \<Rightarrow> (point \<times> 'a) list \<Rightarrow> nat \<Rightarrow> nat \<Rightarrow> real" where
  "increaseAt route toInsert i pos =
     (let prev = fst (route ! (pos - 1));
          next = fst (route ! pos);
          stop = fst (toInsert ! i)
      in haversine prev stop + haversine stop next - haversine prev next)"

text \<open>The body of the inner loop.\<close>

definition tryPosition :: "(point \<times> 'a slot) list \<Rightarrow> (point \<times> 'a) list \<Rightarrow> nat \<Rightarrow> nat \<Rightarrow> best \<Rightarrow> best" where
  "tryPosition route toInsert i pos b =
     (let increase = increaseAt route toInsert i pos
      in if lessThanBest increase (fst b) then (Some increase, Some i, pos) else b)"

text \<open>The two nested \<^verbatim>\<open>for\<close> loops: \<open>i\<close> over the pool, \<open>pos\<close> from 1 below the route length.\<close>

definition findBest :: "(point \<times> 'a slot) list \<Rightarrow> (point \<times> 'a) list \<Rightarrow> best" where
  "findBest route toInsert =
     fold (\<lambda>i. fold (tryPosition route toInsert i) [1..<length route])
          [0..<length toInsert] (None, None, 1)"



definition scanPairs :: "(point \<times> 'a slot) list \<Rightarrow> (point \<times> 'a) list \<Rightarrow> (nat \<times> nat) list \<Rightarrow> best \<Rightarrow> best" where
  "scanPairs route toInsert ps b = fold (\<lambda>(i, pos). tryPosition route toInsert i pos) ps b"

lemma fold_product:
  "fold (\<lambda>i. fold (f i) ys) xs b = fold (\<lambda>(i, p). f i p) (List.product xs ys) b"
  by (induction xs arbitrary: b) (simp_all add: fold_map comp_def)

lemma findBest_scanPairs:
  "findBest route toInsert =
     scanPairs route toInsert (List.product [0..<length toInsert] [1..<length route]) (None, None, 1)"
  unfolding findBest_def scanPairs_def by (rule fold_product)



lemma scanPairs_idx:
  "scanPairs r t ps b = (v, Some i, p) \<Longrightarrow> (\<exists>q. (i, q) \<in> set ps) \<or> (\<exists>w p'. b = (w, Some i, p'))"
proof (induction ps arbitrary: v i p rule: rev_induct)
  case Nil
  then show ?case by (simp add: scanPairs_def)
next
  case (snoc x ps)
  obtain i0 p0 where x: "x = (i0, p0)" by (cases x)
  obtain v1 k1 p1 where s: "scanPairs r t ps b = (v1, k1, p1)" by (cases "scanPairs r t ps b")
  have step: "scanPairs r t (ps @ [x]) b = tryPosition r t i0 p0 (v1, k1, p1)"
    using s by (simp add: scanPairs_def x)
  show ?case
  proof (cases "lessThanBest (increaseAt r t i0 p0) v1")
    case True
    then have "i = i0" using step snoc.prems by (simp add: tryPosition_def)
    then show ?thesis using x by auto
  next
    case False
    then have "scanPairs r t ps b = (v, Some i, p)" using step snoc.prems s by (simp add: tryPosition_def)
    from snoc.IH [OF this] show ?thesis by auto
  qed
qed

lemma findBest_idx:
  "findBest route toInsert = (v, Some i, p) \<Longrightarrow> i < length toInsert"
  using scanPairs_idx [of route toInsert "List.product [0..<length toInsert] [1..<length route]" "(None, None, 1)" v i p]
  by (auto simp: findBest_scanPairs)

lemma length_removeAt: "k < length xs \<Longrightarrow> length (removeAt k xs) < length xs"
  by (simp add: removeAt_def)

text \<open>
  The \<^verbatim>\<open>while (toInsert.length)\<close> loop. When no pair was better than \<^verbatim>\<open>Infinity\<close>,
  \<^verbatim>\<open>bestIdx\<close> is still -1 and \<^verbatim>\<open>toInsert[bestIdx]\<close> is \<^verbatim>\<open>undefined\<close>: the next read of
  its \<^verbatim>\<open>coords\<close> raises a \<^verbatim>\<open>TypeError\<close>. On a route of two or more elements this does not
  happen (\<open>findBest_Some\<close>).
\<close>

function insertLoop :: "(point \<times> 'a slot) list \<Rightarrow> (point \<times> 'a) list \<Rightarrow> error + (point \<times> 'a slot) list" where
  "insertLoop route toInsert =
     (if toInsert = [] then Inr route
      else (case findBest route toInsert of
              (bestIncrease, None, bestPos) \<Rightarrow> Inl TypeError
            | (bestIncrease, Some bestIdx, bestPos) \<Rightarrow>
                insertLoop (insertAt bestPos (asNode (toInsert ! bestIdx)) route)
                           (removeAt bestIdx toInsert)))"
  by pat_completeness auto
termination
  by (relation "measure (\<lambda>(route, toInsert). length toInsert)")
     (auto dest!: findBest_idx [OF sym] intro: length_removeAt)

text \<open>\<^verbatim>\<open>route[0].waypoint === null\<close> reads \<^verbatim>\<open>route[0]\<close>, which must exist.\<close>

definition stripDummies :: "(point \<times> 'a slot) list \<Rightarrow> error + (point \<times> 'a slot) list" where
  "stripDummies route =
     (case route of
        [] \<Rightarrow> Inl TypeError
      | first # rest \<Rightarrow>
          (let route1 = (if snd first = Null then rest else route)
           in Inr (if route1 \<noteq> [] \<and> snd (last route1) = Null then butlast route1 else route1)))"

text \<open>The seed route and the pool that is left to insert.\<close>

definition seedRoute ::
  "point \<Rightarrow> (point \<times> 'a) list \<Rightarrow> point option \<Rightarrow> (point \<times> 'a slot) list \<times> (point \<times> 'a) list" where
  "seedRoute start toInsert endCoords =
     (case endCoords of
        Some e \<Rightarrow>
          (case findIndex (sameCoords e) toInsert of
             Some endIdx \<Rightarrow>
               (let endpoint = toInsert ! endIdx
                in ([(start, Null), (fst endpoint, LegObj endpoint)], removeAt endIdx toInsert))
           | None \<Rightarrow> ([(start, Null), (start, Null)], toInsert))
      | None \<Rightarrow> ([(start, Null), (start, Null)], toInsert))"

definition calculateGreedyInsertionOrder ::
  "point \<Rightarrow> (point \<times> 'a) list \<Rightarrow> point option \<Rightarrow> error + (point \<times> 'a slot) list" where
  "calculateGreedyInsertionOrder start waypoints endCoords =
     (if waypoints = [] then Inr []
      else (case seedRoute start waypoints endCoords of
              (route, toInsert) \<Rightarrow> bindE (insertLoop route toInsert) stripDummies))"

subsection \<open>Nearest neighbour\<close>

text \<open>The body of the inner loop on \<^verbatim>\<open>(minIdx, minDist)\<close>.\<close>

definition nearestStep :: "point \<Rightarrow> (point \<times> 'a) list \<Rightarrow> nat \<Rightarrow> nat \<times> real \<Rightarrow> nat \<times> real" where
  "nearestStep current remaining i m =
     (let dist = haversine current (fst (remaining ! i))
      in if dist < snd m then (i, dist) else m)"

definition nearestIndex :: "point \<Rightarrow> (point \<times> 'a) list \<Rightarrow> nat" where
  "nearestIndex current remaining =
     fst (fold (nearestStep current remaining) [1..<length remaining]
            (0, haversine current (fst (remaining ! 0))))"

lemma nearestStep_bound:
  "fst m < n \<Longrightarrow> i < n \<Longrightarrow> fst (nearestStep current remaining i m) < n"
  by (simp add: nearestStep_def Let_def)

lemma fold_nearestStep_bound:
  "fst m < n \<Longrightarrow> set is \<subseteq> {..<n} \<Longrightarrow> fst (fold (nearestStep current remaining) is m) < n"
  by (induction "is" arbitrary: m) (simp_all add: nearestStep_bound)

lemma nearestIndex_less:
  "remaining \<noteq> [] \<Longrightarrow> nearestIndex current remaining < length remaining"
  unfolding nearestIndex_def by (rule fold_nearestStep_bound) auto

text \<open>The \<^verbatim>\<open>while (remaining.length > 0)\<close> loop on \<^verbatim>\<open>(current, remaining, ordered)\<close>.\<close>

function nnLoop ::
  "point \<Rightarrow> (point \<times> 'a) list \<Rightarrow> (point \<times> 'a) list \<Rightarrow> (point \<times> 'a) list" where
  "nnLoop current remaining ordered =
     (if remaining = [] then ordered
      else (let minIdx = nearestIndex current remaining
            in nnLoop (fst (remaining ! minIdx)) (removeAt minIdx remaining)
                 (ordered @ [remaining ! minIdx])))"
  by pat_completeness auto
termination
  by (relation "measure (\<lambda>(current, remaining, ordered). length remaining)")
     (auto intro: length_removeAt nearestIndex_less)

definition calculateNearestNeighborOrder ::
  "point \<Rightarrow> (point \<times> 'a) list \<Rightarrow> point option \<Rightarrow> (point \<times> 'a) list" where
  "calculateNearestNeighborOrder start waypoints endCoords =
     (case (case endCoords of
              Some e \<Rightarrow>
                (case findIndex (sameCoords e) waypoints of
                   Some idx \<Rightarrow> (Some (waypoints ! idx), removeAt idx waypoints)
                 | None \<Rightarrow> (None, waypoints))
            | None \<Rightarrow> (None, waypoints)) of
        (endpoint, remaining) \<Rightarrow>
          (let ordered = nnLoop start remaining []
           in (case endpoint of Some ep \<Rightarrow> ordered @ [ep] | None \<Rightarrow> ordered)))"

section \<open>Network clients\<close>

definition swapPoint :: "point \<Rightarrow> point" where
  "swapPoint p = (snd p, fst p)"

text \<open>\<^verbatim>\<open>geocodeAddress\<close>: any failure of the request is the result \<^verbatim>\<open>null\<close>.\<close>

definition geocodeAddress :: "env \<Rightarrow> string \<Rightarrow> call list \<times> point option" where
  "geocodeAddress env a = ([GeocodeCall a], geocoder env a)"

definition fetchOSRMRoute ::
  "env \<Rightarrow> TransportMode \<Rightarrow> point \<Rightarrow> (point \<times> 'a) list
     \<Rightarrow> call list \<times> (error + point list \<times> real \<times> real)" where
  "fetchOSRMRoute env mode start destinations =
     (let waypoints = start # map fst destinations
      in ([RouteCall mode waypoints],
          (case routeService env mode waypoints of
             RouteFetchFailed \<Rightarrow> Inl TransportFailure
           | RouteReply None \<Rightarrow> Inl NoRoadRoute
           | RouteReply (Some (geometry, distance, duration)) \<Rightarrow>
               Inr (map swapPoint geometry, distance, duration))))"

record 'a tripResult =
  tr_geometry :: "point list"
  tr_distance :: real
  tr_duration :: real
  tr_waypoint_order :: "int list option"
  tr_reordered :: "(point \<times> 'a) list"

text \<open>\<^verbatim>\<open>order.map(idx => destinations[idx])\<close>, throwing at the first index out of range.\<close>

fun reorderBy :: "(point \<times> 'a) list \<Rightarrow> int list \<Rightarrow> error + (point \<times> 'a) list" where
  "reorderBy destinations [] = Inr []"
| "reorderBy destinations (idx # rest) =
     (if 0 \<le> idx \<and> idx < int (length destinations)
      then bindE (reorderBy destinations rest) (\<lambda>r. Inr (destinations ! nat idx # r))
      else Inl (OrderIndexOutOfRange idx))"

definition fetchOSRMTripRoute ::
  "env \<Rightarrow> TransportMode \<Rightarrow> point \<Rightarrow> (point \<times> 'a) list \<Rightarrow> point option
     \<Rightarrow> call list \<times> (error + 'a tripResult)" where
  "fetchOSRMTripRoute env mode start destinations endCoords =
     (let points = start # map fst destinations @ (case endCoords of None \<Rightarrow> [] | Some e \<Rightarrow> [e])
      in ([TripCall mode points (endCoords \<noteq> None)],
          (case tripService env mode points (endCoords \<noteq> None) of
             TripFetchFailed \<Rightarrow> Inl TransportFailure
           | TripData None \<Rightarrow> Inl NoOptimalTrip
           | TripData (Some t) \<Rightarrow>
               (case trip_geometry t of
                  None \<Rightarrow> Inl MalformedGeometry
                | Some coordinates \<Rightarrow>
                    bindE
                      (if destinations \<noteq> [] then
                         reorderBy destinations
                           (case trip_waypoint_order t of
                              Some waypoint_order \<Rightarrow>
                                if length waypoint_order = length destinations then waypoint_order
                                else map int [0..<length destinations]
                            | None \<Rightarrow> map int [0..<length destinations])
                       else Inr [])
                      (\<lambda>reordered.
                         Inr \<lparr>tr_geometry = map swapPoint coordinates,
                              tr_distance = trip_distance t,
                              tr_duration = trip_duration t,
                              tr_waypoint_order = trip_waypoint_order t,
                              tr_reordered = reordered\<rparr>)))))"

section \<open>Route assembly\<close>

text \<open>
  \<^verbatim>\<open>calculateMultiPointRoute\<close>, phase by phase. Every phase returns the network requests it
  issued together with its value. Toasts, the loading flag, the duration cache and the map
  drawing have no effect on the value handed to \<^verbatim>\<open>setRouteData\<close> and are left out, except
  that the title of the summary toast is returned as the \<^typ>\<open>strategy\<close>.
\<close>

definition availableWaypoints :: "Waypoint list \<Rightarrow> Waypoint list" where
  "availableWaypoints waypoints =
     filter (\<lambda>wp. \<not> wp_visited wp \<and> \<not> isBlank (wp_address wp)) waypoints"

text \<open>The optional end waypoint and the intermediate waypoints.\<close>

definition partitionEndpoint :: "Waypoint list \<Rightarrow> Waypoint option \<times> Waypoint list" where
  "partitionEndpoint available =
     (case findIndex wp_isEndPoint available of
        Some endWaypointIndex \<Rightarrow>
          (Some (available ! endWaypointIndex), removeAt endWaypointIndex available)
      | None \<Rightarrow> (None, available))"

text \<open>The \<^verbatim>\<open>for (const waypoint of intermediateWaypoints)\<close> loop.\<close>

fun geocodeIntermediate :: "env \<Rightarrow> Waypoint list \<Rightarrow> call list \<times> (error + Waypoint list)" where
  "geocodeIntermediate env [] = ([], Inr [])"
| "geocodeIntermediate env (waypoint # rest) =
     (case geocodeAddress env (wp_address waypoint) of
        (calls, None) \<Rightarrow> (calls, Inl (DestinationNotFound (wp_address waypoint)))
      | (calls, Some c) \<Rightarrow>
          (case geocodeIntermediate env rest of
             (calls', r) \<Rightarrow>
               (calls @ calls',
                bindE r (\<lambda>geocoded. Inr (waypoint\<lparr>wp_coordinates := Some c\<rparr> # geocoded)))))"

definition geocodeEnd :: "env \<Rightarrow> Waypoint option \<Rightarrow> call list \<times> (error + Waypoint option)" where
  "geocodeEnd env endWaypoint =
     (case endWaypoint of
        None \<Rightarrow> ([], Inr None)
      | Some w \<Rightarrow>
          (case geocodeAddress env (wp_address w) of
             (calls, None) \<Rightarrow> (calls, Inl (EndDestinationNotFound (wp_address w)))
           | (calls, Some c) \<Rightarrow> (calls, Inr (Some (w\<lparr>wp_coordinates := Some c\<rparr>)))))"

text \<open>\<^verbatim>\<open>{coords: wp.coordinates!, waypoint: wp}\<close> for a geocoded waypoint.\<close>

definition legOf :: "Waypoint \<Rightarrow> point \<times> Waypoint" where
  "legOf wp = (the (wp_coordinates wp), wp)"

text \<open>
  The per-leg loop of the fallback branches, on the state
  \<^verbatim>\<open>(allCoords, totalDist, totalDur)\<close> with \<^verbatim>\<open>prev\<close> as the first argument.
\<close>

type_synonym stitched = "point list \<times> real \<times> real"

definition stitchLeg :: "env \<Rightarrow> point \<Rightarrow> point \<times> 'a \<Rightarrow> stitched \<Rightarrow> call list \<times> stitched" where
  "stitchLeg env segStart leg st =
     (case st of (allCoords, totalDist, totalDur) \<Rightarrow>
        (let segEnd = fst leg
         in (case fetchOSRMRoute env Driving segStart [leg] of
               (calls, Inr (geometry, distance, duration)) \<Rightarrow>
                 (calls,
                  (if allCoords \<noteq> [] \<and> 1 < length geometry
                   then allCoords @ drop 1 geometry
                   else allCoords @ geometry),
                  totalDist + distance,
                  totalDur + duration)
             | (calls, Inl segErr) \<Rightarrow>
                 (calls,
                  allCoords @ [(snd segEnd, fst segEnd)],
                  totalDist + haversine segStart segEnd,
                  totalDur + haversine segStart segEnd / 13))))"

fun stitchLegs :: "env \<Rightarrow> point \<Rightarrow> (point \<times> 'a) list \<Rightarrow> stitched \<Rightarrow> call list \<times> stitched" where
  "stitchLegs env prev [] st = ([], st)"
| "stitchLegs env prev (leg # rest) st =
     (case stitchLeg env prev leg st of
        (calls, st') \<Rightarrow>
          (case stitchLegs env (fst leg) rest st' of
             (calls', st'') \<Rightarrow> (calls @ calls', st'')))"

text \<open>
  \<^verbatim>\<open>reorderedWp.waypoint.f\<close>: a \<^verbatim>\<open>TypeError\<close> on \<^verbatim>\<open>null\<close>, the field of a stop, and
  \<^verbatim>\<open>undefined\<close> on a leg object, which has no such field.
\<close>

definition slotField :: "('a \<Rightarrow> 'b option) \<Rightarrow> 'a slot \<Rightarrow> error + 'b option" where
  "slotField f s = (case s of Null \<Rightarrow> Inl TypeError | Obj w \<Rightarrow> Inr (f w) | LegObj leg \<Rightarrow> Inr None)"

text \<open>The callback of \<^verbatim>\<open>reordered.map\<close> that builds one numbered waypoint.\<close>

definition labelWaypoint ::
  "Waypoint option \<Rightarrow> nat \<Rightarrow> nat \<Rightarrow> point \<times> Waypoint slot \<Rightarrow> error + LocationData" where
  "labelWaypoint endWaypoint n idx reorderedWp =
     (let esUltimo = (if idx = n - 1 then endWaypoint else None)
      in bindE
           (case esUltimo of
              Some e \<Rightarrow>
                if \<not> isBlank (wp_address e) then Inr (Some (wp_address e))
                else slotField (\<lambda>w. Some (wp_address w)) (snd reorderedWp)
            | None \<Rightarrow> slotField (\<lambda>w. Some (wp_address w)) (snd reorderedWp))
           (\<lambda>a. bindE
              (case esUltimo of
                 Some e \<Rightarrow>
                   (case wp_name e of
                      Some nm \<Rightarrow> if \<not> isBlank nm then Inr (Some nm) else slotField wp_name (snd reorderedWp)
                    | None \<Rightarrow> slotField wp_name (snd reorderedWp))
               | None \<Rightarrow> slotField wp_name (snd reorderedWp))
              (\<lambda>nm. bindE
                 (case esUltimo of
                    Some e \<Rightarrow>
                      if wp_id e \<noteq> [] then Inr (Some (wp_id e))
                      else slotField (\<lambda>w. Some (wp_id w)) (snd reorderedWp)
                  | None \<Rightarrow> slotField (\<lambda>w. Some (wp_id w)) (snd reorderedWp))
                 (\<lambda>i. Inr \<lparr>ld_latitude = snd (fst reorderedWp),
                            ld_longitude = fst (fst reorderedWp),
                            ld_address = a,
                            ld_name = nm,
                            ld_id = i,
                            ld_displayNumber = idx + 1\<rparr>))))"

fun labelFrom ::
  "Waypoint option \<Rightarrow> nat \<Rightarrow> nat \<Rightarrow> (point \<times> Waypoint slot) list \<Rightarrow> error + LocationData list" where
  "labelFrom endWaypoint n idx [] = Inr []"
| "labelFrom endWaypoint n idx (reorderedWp # rest) =
     bindE (labelWaypoint endWaypoint n idx reorderedWp)
       (\<lambda>w. bindE (labelFrom endWaypoint n (Suc idx) rest) (\<lambda>ws. Inr (w # ws)))"

definition greedyWaypoints ::
  "CurrentLocation \<Rightarrow> Waypoint option \<Rightarrow> (point \<times> Waypoint slot) list \<Rightarrow> error + LocationData list" where
  "greedyWaypoints currentLocation endWaypoint reordered =
     bindE (labelFrom endWaypoint (length reordered) 0 reordered)
       (\<lambda>ws. Inr (\<lparr>ld_latitude = cl_latitude currentLocation,
                    ld_longitude = cl_longitude currentLocation,
                    ld_address =
                      (case cl_address currentLocation of
                         Some a \<Rightarrow> if a \<noteq> [] then Some a else Some ''Your Location''
                       | None \<Rightarrow> Some ''Your Location''),
                    ld_name = Some ''Your Location'',
                    ld_id = Some ''start'',
                    ld_displayNumber = 0\<rparr> # ws))"

text \<open>Step 2 of the source: the factor for the modes that are not driving.\<close>

definition shownDuration :: "TransportMode \<Rightarrow> real \<Rightarrow> real" where
  "shownDuration transportMode totalDur =
     (if transportMode = Walking then totalDur * 3
      else if transportMode = Cycling then totalDur * 1.5
      else totalDur)"

text \<open>
  The trip attempt and the three branches that follow it: the order, the path, the total
  distance and the total driving duration. \<^verbatim>\<open>useNearestNeighbor\<close> is never set by the
  source.
\<close>

definition useNearestNeighbor :: bool where
  "useNearestNeighbor = False"

definition orderAndPath ::
  "env \<Rightarrow> point \<Rightarrow> (point \<times> Waypoint) list \<Rightarrow> Waypoint option
     \<Rightarrow> call list \<times> (error + strategy \<times> (point \<times> Waypoint slot) list \<times> stitched)" where
  "orderAndPath env startCoords intermediate geocodedEnd =
     (let endCoords = (case geocodedEnd of Some g \<Rightarrow> wp_coordinates g | None \<Rightarrow> None);
          endLeg = (case geocodedEnd of
                      Some g \<Rightarrow> (case endCoords of Some e \<Rightarrow> [(e, g)] | None \<Rightarrow> [])
                    | None \<Rightarrow> [])
      in (case fetchOSRMTripRoute env Driving startCoords intermediate endCoords of
            (calls, tripResp) \<Rightarrow>
              (let useGreedyInsertion =
                     (case tripResp of
                        Inl e \<Rightarrow> True
                      | Inr t \<Rightarrow>
                          1 < length intermediate \<and>
                          (case tr_waypoint_order t of
                             None \<Rightarrow> True
                           | Some wo \<Rightarrow> length wo \<noteq> length intermediate))
               in if useGreedyInsertion then
                    (case calculateGreedyInsertionOrder startCoords (intermediate @ endLeg) endCoords of
                       Inl e \<Rightarrow> (calls, Inl e)
                     | Inr reordered \<Rightarrow>
                         (case stitchLegs env startCoords reordered ([], 0, 0) of
                            (calls', st) \<Rightarrow> (calls @ calls', Inr (GreedyInsertion, reordered, st))))
                  else if useNearestNeighbor then
                    (let reordered =
                           map asNode
                             (calculateNearestNeighborOrder startCoords (intermediate @ endLeg) endCoords)
                     in (case stitchLegs env startCoords reordered ([], 0, 0) of
                           (calls', st) \<Rightarrow> (calls @ calls', Inr (NearestNeighbor, reordered, st))))
                  else
                    (case tripResp of
                       Inl e \<Rightarrow> (calls, Inl TypeError)
                     | Inr t \<Rightarrow>
                         (calls,
                          Inr (ProviderTrip, map asNode (tr_reordered t),
                               (tr_geometry t, tr_distance t, tr_duration t)))))))"

definition calculateMultiPointRoute ::
  "env \<Rightarrow> TransportMode \<Rightarrow> CurrentLocation option \<Rightarrow> bool \<Rightarrow> Waypoint list
     \<Rightarrow> call list \<times> (error + strategy \<times> RouteData)" where
  "calculateMultiPointRoute env transportMode currentLocation leaflet waypoints =
     (case currentLocation of
        None \<Rightarrow> ([], Inl MissingInformation)
      | Some loc \<Rightarrow>
          if \<not> leaflet then ([], Inl MissingInformation)
          else if availableWaypoints waypoints = [] then ([], Inl NoDestinations)
          else
            (case partitionEndpoint (availableWaypoints waypoints) of
               (endWaypoint, intermediateWaypoints) \<Rightarrow>
                 (case geocodeIntermediate env intermediateWaypoints of
                    (calls1, Inl e) \<Rightarrow> (calls1, Inl e)
                  | (calls1, Inr geocodedIntermediate) \<Rightarrow>
                      (case geocodeEnd env endWaypoint of
                         (calls2, Inl e) \<Rightarrow> (calls1 @ calls2, Inl e)
                       | (calls2, Inr geocodedEnd) \<Rightarrow>
                           (let startCoords = (cl_longitude loc, cl_latitude loc);
                                intermediate = map legOf geocodedIntermediate
                            in if intermediate = [] \<and> geocodedEnd = None
                               then (calls1 @ calls2, Inl NoValidDestinations)
                               else
                                 (case orderAndPath env startCoords intermediate geocodedEnd of
                                    (calls3, Inl e) \<Rightarrow> (calls1 @ calls2 @ calls3, Inl e)
                                  | (calls3, Inr (strat, reordered, geometryLatLngs, totalDist, totalDur)) \<Rightarrow>
                                      (calls1 @ calls2 @ calls3,
                                       bindE (greedyWaypoints loc endWaypoint reordered)
                                         (\<lambda>ws. Inr (strat,
                                                \<lparr>rd_distance = totalDist,
                                                 rd_duration = shownDuration transportMode totalDur,
                                                 rd_coordinates = geometryLatLngs,
                                                 rd_waypoints = ws\<rparr>)))))))))"


section \<open>Example inputs\<close>

text \<open>A stop as the sidebar creates it: no name, no coordinates yet.\<close>

definition exStop :: "string \<Rightarrow> string \<Rightarrow> bool \<Rightarrow> bool \<Rightarrow> Waypoint" where
  "exStop i a v e = \<lparr>wp_id = i, wp_address = a, wp_name = None, wp_coordinates = None,
                     wp_visited = v, wp_isEndPoint = e\<rparr>"

definition exHere :: CurrentLocation where
  "exHere = \<lparr>cl_latitude = 0, cl_longitude = 0, cl_address = None\<rparr>"

text \<open>
  An environment whose geocoder knows the addresses A, B and C, whose trip service answers
  with a trip through the requested points, of the given duration and ordering array, and
  whose route service is down.
\<close>

definition exTripEnv :: "real \<Rightarrow> int list option \<Rightarrow> env" where
  "exTripEnv dur wo =
     \<lparr>geocoder = (\<lambda>a. if a = ''A'' then Some (0, 1) else if a = ''B'' then Some (0, 2)
                       else if a = ''C'' then Some (0, 3) else None),
      tripService = (\<lambda>mode points dst.
         TripData (Some \<lparr>trip_geometry = Some points, trip_distance = 1000,
                         trip_duration = dur, trip_waypoint_order = wo\<rparr>)),
      routeService = (\<lambda>mode points. RouteFetchFailed)\<rparr>"

definition exStartWaypoint :: LocationData where
  "exStartWaypoint =
     \<lparr>ld_latitude = 0, ld_longitude = 0, ld_address = Some ''Your Location'',
      ld_name = Some ''Your Location'', ld_id = Some ''start'', ld_displayNumber = 0\<rparr>"

definition exWaypoint :: "real \<Rightarrow> real \<Rightarrow> string \<Rightarrow> string \<Rightarrow> nat \<Rightarrow> LocationData" where
  "exWaypoint lat lon a i n =
     \<lparr>ld_latitude = lat, ld_longitude = lon, ld_address = Some a,
      ld_name = None, ld_id = Some i, ld_displayNumber = n\<rparr>"

text \<open>
  An environment whose trip service cannot be reached, so that every run takes the
  fallback branch; the route service is a parameter.
\<close>

definition exFallbackEnv :: "(point list \<Rightarrow> route_reply) \<Rightarrow> env" where
  "exFallbackEnv routes =
     \<lparr>geocoder = (\<lambda>a. if a = ''A'' then Some (0, 1) else if a = ''B'' then Some (0, 2)
                       else if a = ''C'' then Some (0, 3) else None),
      tripService = (\<lambda>mode points dst. TripFetchFailed),
      routeService = (\<lambda>mode. routes)\<rparr>"

text \<open>A route service whose second leg does not start where the first one ended.\<close>

definition exRoutes :: "point list \<Rightarrow> route_reply" where
  "exRoutes points =
     (if points = [(0, 0), (0, 1)] then RouteReply (Some ([(0, 0), (0, 1)], 100, 10))
      else if points = [(0, 1), (0, 2)] then RouteReply (Some ([(5, 5), (0, 2)], 200, 20))
      else RouteReply None)"

text \<open>
  The stitching rule in the words of the specification, for comparison with
  \<^const>\<open>stitchLeg\<close>: the first point of a leg path is dropped exactly when it equals the last
  point of the path so far.
\<close>

definition specJoin :: "point list \<Rightarrow> point list \<Rightarrow> point list" where
  "specJoin path leg =
     (if path \<noteq> [] \<and> leg \<noteq> [] \<and> hd leg = last path then path @ tl leg else path @ leg)"

section \<open>Evaluation of concrete runs\<close>

text \<open>The loop equations are unfolded on demand only.\<close>

declare insertLoop.simps [simp del]
declare nnLoop.simps [simp del]

lemmas run_defs =
  calculateMultiPointRoute_def exTripEnv_def exHere_def exStop_def exStartWaypoint_def
  exWaypoint_def availableWaypoints_def isBlank_def isSpace_def partitionEndpoint_def
  geocodeAddress_def geocodeEnd_def legOf_def orderAndPath_def fetchOSRMTripRoute_def
  bindE_def useNearestNeighbor_def asNode_def greedyWaypoints_def labelWaypoint_def
  slotField_def swapPoint_def shownDuration_def removeAt_def Let_def exFallbackEnv_def
  calculateGreedyInsertionOrder_def seedRoute_def sameCoords_def findBest_def tryPosition_def
  lessThanBest_def insertAt_def stripDummies_def stitchLeg_def fetchOSRMRoute_def
  insertLoop.simps

section \<open>Duration compensation\<close>

lemma shownDuration_Driving: "shownDuration Driving d = d"
  by (simp add: shownDuration_def)

text \<open>
  The travel mode enters the computation in one place only: every request is issued with
  the driving profile, and the run in any mode is the driving run with the total duration
  passed through \<^const>\<open>shownDuration\<close>.
\<close>

lemma calculateMultiPointRoute_mode:
  "calculateMultiPointRoute env mode loc leaflet wps =
     (case calculateMultiPointRoute env Driving loc leaflet wps of
        (calls, Inl e) \<Rightarrow> (calls, Inl e)
      | (calls, Inr (strat, r)) \<Rightarrow>
          (calls, Inr (strat, r\<lparr>rd_duration := shownDuration mode (rd_duration r)\<rparr>)))"
  unfolding calculateMultiPointRoute_def
  by (simp add: shownDuration_Driving bindE_def Let_def split: option.splits prod.splits sum.splits)

text \<open>
  Claim C5. The aggregate duration is a driving-mode estimate and is compensated exactly
  once, after aggregation: whenever the computation in driving mode yields a route with
  total duration \<open>d\<close>, the same computation in walking mode issues the same requests and
  yields the same route with duration \<open>3 d\<close>, in cycling mode with duration \<open>1.5 d\<close>, and in
  driving mode with \<open>d\<close> itself. With a driving duration of 600 seconds the walking
  duration is 1800 seconds (the witness below).
\<close>

theorem duration_compensated_once:
  assumes "calculateMultiPointRoute env Driving loc leaflet wps = (calls, Inr (strat, r))"
  shows "calculateMultiPointRoute env mode loc leaflet wps =
           (calls, Inr (strat, r\<lparr>rd_duration :=
              (case mode of Walking \<Rightarrow> rd_duration r * 3
                          | Cycling \<Rightarrow> rd_duration r * 1.5
                          | Driving \<Rightarrow> rd_duration r)\<rparr>))"
  using assms calculateMultiPointRoute_mode [of env mode loc leaflet wps]
  by (cases mode) (simp_all add: shownDuration_def)

theorem duration_compensated_once_witness:
  "calculateMultiPointRoute (exTripEnv 600 None) Driving (Some exHere) True
       [exStop ''a'' ''A'' False False] =
     ([GeocodeCall ''A'', TripCall Driving [(0, 0), (0, 1)] False],
      Inr (ProviderTrip,
           \<lparr>rd_distance = 1000, rd_duration = 600, rd_coordinates = [(0, 0), (1, 0)],
            rd_waypoints = [exStartWaypoint, exWaypoint 1 0 ''A'' ''a'' 1]\<rparr>))
   \<and> calculateMultiPointRoute (exTripEnv 600 None) Walking (Some exHere) True
       [exStop ''a'' ''A'' False False] =
     ([GeocodeCall ''A'', TripCall Driving [(0, 0), (0, 1)] False],
      Inr (ProviderTrip,
           \<lparr>rd_distance = 1000, rd_duration = 1800, rd_coordinates = [(0, 0), (1, 0)],
            rd_waypoints = [exStartWaypoint, exWaypoint 1 0 ''A'' ''a'' 1]\<rparr>))"
proof -
  have driving:
    "calculateMultiPointRoute (exTripEnv 600 None) Driving (Some exHere) True
         [exStop ''a'' ''A'' False False] =
       ([GeocodeCall ''A'', TripCall Driving [(0, 0), (0, 1)] False],
        Inr (ProviderTrip,
             \<lparr>rd_distance = 1000, rd_duration = 600, rd_coordinates = [(0, 0), (1, 0)],
              rd_waypoints = [exStartWaypoint, exWaypoint 1 0 ''A'' ''a'' 1]\<rparr>))"
    by (simp add: run_defs)
  from duration_compensated_once [OF driving, of Walking] driving show ?thesis
    by simp
qed

section \<open>Failure of a single leg\<close>




section \<open>Stitching of leg paths\<close>

text \<open>
  Claim C10, as the source has it. Leg paths are concatenated, and the first point of a
  leg's path is dropped exactly when the path built so far is not empty and the leg's path
  has more than one point. The point is not compared with the last point of the path so
  far; every other point of the leg's path is kept, in order.
\<close>

theorem leg_first_point_dropped:
  assumes "routeService env Driving [prev, fst leg] = RouteReply (Some (geometry, distance, duration))"
  shows "stitchLegs env prev (leg # rest) (allCoords, totalDist, totalDur) =
           (case stitchLegs env (fst leg) rest
                   (allCoords @ (if allCoords \<noteq> [] \<and> 1 < length geometry
                                 then tl (map swapPoint geometry) else map swapPoint geometry),
                    totalDist + distance,
                    totalDur + duration) of
              (calls, st) \<Rightarrow> (RouteCall Driving [prev, fst leg] # calls, st))"
  using assms by (simp add: stitchLeg_def fetchOSRMRoute_def drop_Suc split: prod.splits)

theorem leg_first_point_dropped_witness:
  "stitchLegs (exFallbackEnv exRoutes) (0, 0) [((0, 1), ''a''), ((0, 2), ''b'')] ([], 0, 0) =
     ([RouteCall Driving [(0, 0), (0, 1)], RouteCall Driving [(0, 1), (0, 2)]],
      [(0, 0), (1, 0), (2, 0)], 300, 30)"
proof -
  have r1: "routeService (exFallbackEnv exRoutes) Driving [(0, 0), fst ((0, 1), ''a'')] =
              RouteReply (Some ([(0, 0), (0, 1)], 100, 10))"
    by (simp add: exFallbackEnv_def exRoutes_def)
  have r2: "routeService (exFallbackEnv exRoutes) Driving [(0, 1), fst ((0, 2), ''b'')] =
              RouteReply (Some ([(5, 5), (0, 2)], 200, 20))"
    by (simp add: exFallbackEnv_def exRoutes_def)
  show ?thesis
    using leg_first_point_dropped [OF r1, of "[((0, 2), ''b'')]" "[]" 0 0]
          leg_first_point_dropped [OF r2, of "[]" "[(0, 0), (1, 0)]" 100 10]
    by (simp add: swapPoint_def)
qed

text \<open>
  Claim C10 as stated fails: the second leg's path starts at a point that differs from the
  end of the first leg's path, and that point is dropped all the same, so the stitched
  path is not the one the stated rule \<^const>\<open>specJoin\<close> gives.
\<close>

theorem stitching_drops_unequal_point:
  "fst (snd (stitchLegs (exFallbackEnv exRoutes) (0, 0) [((0, 1), ''a''), ((0, 2), ''b'')] ([], 0, 0))) =
     [(0, 0), (1, 0), (2, 0)]
   \<and> fst (snd (stitchLegs (exFallbackEnv exRoutes) (0, 0) [((0, 1), ''a''), ((0, 2), ''b'')] ([], 0, 0))) \<noteq>
       specJoin (specJoin [] [(0, 0), (1, 0)]) [(5, 5), (2, 0)]"
  by (simp add: stitchLeg_def fetchOSRMRoute_def exFallbackEnv_def exRoutes_def swapPoint_def specJoin_def)

section \<open>Geocoding\<close>

lemma geocodeIntermediate_all:
  "\<forall>v \<in> set xs. geocoder env (wp_address v) \<noteq> None \<Longrightarrow>
   geocodeIntermediate env xs =
     (map (GeocodeCall \<circ> wp_address) xs,
      Inr (map (\<lambda>v. v\<lparr>wp_coordinates := geocoder env (wp_address v)\<rparr>) xs))"
  by (induction xs) (auto simp: geocodeAddress_def bindE_def)

lemma geocodeIntermediate_fails:
  "\<forall>v \<in> set pre. geocoder env (wp_address v) \<noteq> None \<Longrightarrow> geocoder env (wp_address w) = None \<Longrightarrow>
   geocodeIntermediate env (pre @ w # post) =
     (map (GeocodeCall \<circ> wp_address) (pre @ [w]), Inl (DestinationNotFound (wp_address w)))"
  by (induction pre) (auto simp: geocodeAddress_def bindE_def)

text \<open>
  Claim C6, as the source has it. Every available stop is geocoded, sequentially: the
  intermediate stops in input order and the end-flagged stop after them, whatever its
  place in the input. At the first stop in that order whose address does not resolve the
  run ends with an error; up to then only geocoding requests have been issued, no trip or
  route request, and no route is returned.
\<close>

theorem geocoding_order_and_abort:
  assumes part: "partitionEndpoint (availableWaypoints wps) = (endWaypoint, intermediateWaypoints)"
    and split: "intermediateWaypoints @ (case endWaypoint of Some e \<Rightarrow> [e] | None \<Rightarrow> []) =
                  resolved @ w # later"
    and ok: "\<forall>v \<in> set resolved. geocoder env (wp_address v) \<noteq> None"
    and bad: "geocoder env (wp_address w) = None"
  shows "calculateMultiPointRoute env mode (Some loc) True wps =
           (map (GeocodeCall \<circ> wp_address) (resolved @ [w]),
            Inl (if length resolved < length intermediateWaypoints
                 then DestinationNotFound (wp_address w)
                 else EndDestinationNotFound (wp_address w)))"
proof (cases "length resolved < length intermediateWaypoints")
  have ne: "availableWaypoints wps \<noteq> []"
    using part split by (auto simp: partitionEndpoint_def)
  case True
  then obtain post where "intermediateWaypoints = resolved @ w # post"
    using split by (auto simp: append_eq_append_conv2 append_eq_Cons_conv split: option.splits)
  then show ?thesis
    using True part ne geocodeIntermediate_fails [OF ok bad, of post]
    by (simp add: calculateMultiPointRoute_def)
next
  have ne: "availableWaypoints wps \<noteq> []"
    using part split by (auto simp: partitionEndpoint_def)
  case False
  then obtain e where e: "endWaypoint = Some e" "w = e" "intermediateWaypoints = resolved"
    using split by (auto simp: append_eq_append_conv2 append_eq_Cons_conv Cons_eq_append_conv split: option.splits)
  show ?thesis
    using False part ne e geocodeIntermediate_all [OF ok] bad
    by (simp add: calculateMultiPointRoute_def geocodeEnd_def geocodeAddress_def)
qed

theorem geocoding_order_and_abort_witness:
  "calculateMultiPointRoute (exTripEnv 600 None) Driving (Some exHere) True
     [exStop ''e'' ''X'' False True, exStop ''a'' ''A'' False False, exStop ''y'' ''Y'' False False] =
   ([GeocodeCall ''A'', GeocodeCall ''Y''], Inl (DestinationNotFound ''Y''))"
proof -
  let ?wps = "[exStop ''e'' ''X'' False True, exStop ''a'' ''A'' False False, exStop ''y'' ''Y'' False False]"
  have part: "partitionEndpoint (availableWaypoints ?wps) =
                (Some (exStop ''e'' ''X'' False True), [exStop ''a'' ''A'' False False, exStop ''y'' ''Y'' False False])"
    by (simp add: run_defs)
  have split: "[exStop ''a'' ''A'' False False, exStop ''y'' ''Y'' False False]
                 @ (case Some (exStop ''e'' ''X'' False True) of Some e \<Rightarrow> [e] | None \<Rightarrow> []) =
               [exStop ''a'' ''A'' False False] @ exStop ''y'' ''Y'' False False # [exStop ''e'' ''X'' False True]"
    by simp
  have ok: "\<forall>v \<in> set [exStop ''a'' ''A'' False False]. geocoder (exTripEnv 600 None) (wp_address v) \<noteq> None"
    by (simp add: run_defs)
  have bad: "geocoder (exTripEnv 600 None) (wp_address (exStop ''y'' ''Y'' False False)) = None"
    by (simp add: run_defs)
  show ?thesis
    using geocoding_order_and_abort [OF part split ok bad, of Driving exHere]
    by (simp add: exStop_def)
qed

text \<open>
  Claim C6 as stated fails: the end-flagged stop is first in the input and does not
  resolve, yet the first (and only) geocoding request is for the second stop, so the
  requests are not a prefix of the stops in input order.
\<close>

theorem geocoding_not_in_input_order:
  "calculateMultiPointRoute (exTripEnv 600 None) Driving (Some exHere) True
     [exStop ''e'' ''X'' False True, exStop ''y'' ''Y'' False False] =
   ([GeocodeCall ''Y''], Inl (DestinationNotFound ''Y''))
   \<and> \<not> prefix [GeocodeCall ''Y'']
        (map (GeocodeCall \<circ> wp_address)
           (availableWaypoints [exStop ''e'' ''X'' False True, exStop ''y'' ''Y'' False False]))"
  by (simp add: run_defs)

section \<open>Partition into end stop and intermediate stops\<close>





section \<open>Distances along a meridian\<close>



section \<open>Nearest-neighbour order\<close>















section \<open>Greedy insertion order\<close>






















section \<open>Fallback to the insertion heuristic\<close>




















section \<open>The end stop on the provider path\<close>

text \<open>
  Claim C1 at a failing input. The only stop is end-flagged and the trip service answers
  with a trip. The accepted order \<^verbatim>\<open>tripResp.reordered\<close> holds the intermediate legs only,
  so the output waypoint sequence is the start alone: the end stop is not its last
  element, it is absent.
\<close>

theorem end_stop_absent_on_provider_path:
  "calculateMultiPointRoute (exTripEnv 600 None) Driving (Some exHere) True
     [exStop ''e'' ''B'' False True] =
   ([GeocodeCall ''B'', TripCall Driving [(0, 0), (0, 2)] True],
    Inr (ProviderTrip,
         \<lparr>rd_distance = 1000, rd_duration = 600, rd_coordinates = [(0, 0), (2, 0)],
          rd_waypoints = [exStartWaypoint]\<rparr>))"
  by (simp add: run_defs)

text \<open>
  Claim C2 at a failing input. Two of the three stops are unvisited with a non-blank
  address, one of them end-flagged, and the trip service answers with a trip. The output
  has the display numbers 0, 1 instead of 0, 1, 2: the waypoint numbered 1 lies at the
  position of the intermediate stop and carries the address and identifier of the end
  stop.
\<close>

theorem provider_path_drops_a_stop:
  "calculateMultiPointRoute (exTripEnv 600 None) Driving (Some exHere) True
     [exStop ''a'' ''A'' False False, exStop ''v'' ''C'' True False, exStop ''e'' ''B'' False True] =
   ([GeocodeCall ''A'', GeocodeCall ''B'', TripCall Driving [(0, 0), (0, 1), (0, 2)] True],
    Inr (ProviderTrip,
         \<lparr>rd_distance = 1000, rd_duration = 600, rd_coordinates = [(0, 0), (1, 0), (2, 0)],
          rd_waypoints = [exStartWaypoint, exWaypoint 1 0 ''B'' ''e'' 1]\<rparr>))
   \<and> length (filter (\<lambda>wp. \<not> wp_visited wp \<and> \<not> isBlank (wp_address wp))
        [exStop ''a'' ''A'' False False, exStop ''v'' ''C'' True False, exStop ''e'' ''B'' False True]) = 2"
  by (simp add: run_defs)

end
